theory Spec2Isabelle
  imports Complex_Main "HOL-Library.AList" "HOL-Library.Log_Nat"
begin

section \<open>Python values used by \<open>utils.py\<close>\<close>

text \<open>
  The module \<open>src/dataset_manager/utils/utils.py\<close> computes with Python floats and
  integers. Integers are unbounded (\<open>int\<close>). A float is an IEEE 754 binary64 number:
  \<open>Fin q\<close> is the finite float of value \<open>q\<close> (\<open>Fin 0\<close> is \<open>0.0\<close>), \<open>NZero\<close> is
  \<open>-0.0\<close>, and \<open>PInf\<close>, \<open>NInf\<close>, \<open>NaN\<close> are \<open>inf\<close>, \<open>-inf\<close> and \<open>nan\<close>. Every
  arithmetic operation rounds its exact result to the nearest float, ties to the even
  mantissa, and overflows to an infinity.
\<close>

datatype pyfloat = Fin rat | NZero | PInf | NInf | NaN

datatype py_error =
    TypeError | IndexError | ValueError | ZeroDivisionError | OverflowError
  | UnboundLocalError | CvError

subsection \<open>Rounding to binary64\<close>

text \<open>
  Rounding to the nearest integer, ties to the even neighbour: the rounding of the
  float operations (on the mantissa) and of the \<open>.6f\<close> format (on the millionths).
\<close>

definition round_half_even :: "rat \<Rightarrow> int" where
  "round_half_even q =
     (let f = \<lfloor>q\<rfloor>; r = q - of_int f
      in if r < 1 / 2 then f
         else if 1 / 2 < r then f + 1
         else if even f then f else f + 1)"

text \<open>
  \<open>expo q\<close> is the binary exponent of \<open>q \<noteq> 0\<close>, the \<open>e\<close> with
  \<open>2 ^ e \<le> |q| < 2 ^ (e + 1)\<close>. A float has 53 bits of mantissa and its exponent is
  at least \<open>-1022\<close>, so the floats near \<open>q\<close> are the multiples of \<open>ulp q\<close>.
\<close>

definition expo :: "rat \<Rightarrow> int" where
  "expo q =
     (if 1 \<le> \<bar>q\<bar> then bitlen \<lfloor>\<bar>q\<bar>\<rfloor> - 1
      else (let r = 1 / \<bar>q\<bar>; k = bitlen \<lfloor>r\<rfloor> - 1
            in if r = 2 powi k then - k else - k - 1))"

definition ulp :: "rat \<Rightarrow> rat" where
  "ulp q = 2 powi (max (expo q) (- 1022) - 52)"

definition rnd_mag :: "rat \<Rightarrow> rat" where
  "rnd_mag q = of_int (round_half_even (q / ulp q)) * ulp q"

definition signed_zero :: "bool \<Rightarrow> pyfloat" where
  "signed_zero neg = (if neg then NZero else Fin 0)"

definition signed_inf :: "bool \<Rightarrow> pyfloat" where
  "signed_inf neg = (if neg then NInf else PInf)"

text \<open>
  The float nearest to the exact value \<open>q\<close>: the magnitude is rounded, a result of
  \<open>2 ^ 1024\<close> or more is an infinity, and a result of zero keeps the sign of \<open>q\<close>.
\<close>

definition rnd :: "rat \<Rightarrow> pyfloat" where
  "rnd q =
     (let r = rnd_mag \<bar>q\<bar>
      in if 2 ^ 1024 \<le> r then signed_inf (q < 0)
         else if r = 0 then signed_zero (q < 0)
         else Fin (if q < 0 then - r else r))"

subsection \<open>Float operations\<close>

text \<open>Float addition, negation, subtraction, absolute value and comparison.\<close>

fun fadd :: "pyfloat \<Rightarrow> pyfloat \<Rightarrow> pyfloat" where
  "fadd NaN _ = NaN"
| "fadd _ NaN = NaN"
| "fadd PInf NInf = NaN"
| "fadd NInf PInf = NaN"
| "fadd PInf _ = PInf"
| "fadd _ PInf = PInf"
| "fadd NInf _ = NInf"
| "fadd _ NInf = NInf"
| "fadd NZero NZero = NZero"
| "fadd NZero (Fin b) = rnd b"
| "fadd (Fin a) NZero = rnd a"
| "fadd (Fin a) (Fin b) = rnd (a + b)"

fun fneg :: "pyfloat \<Rightarrow> pyfloat" where
  "fneg (Fin a) = (if a = 0 then NZero else Fin (- a))"
| "fneg NZero = Fin 0"
| "fneg PInf = NInf"
| "fneg NInf = PInf"
| "fneg NaN = NaN"

definition fsub :: "pyfloat \<Rightarrow> pyfloat \<Rightarrow> pyfloat" where
  "fsub a b = fadd a (fneg b)"

fun fabs :: "pyfloat \<Rightarrow> pyfloat" where
  "fabs (Fin a) = Fin \<bar>a\<bar>"
| "fabs NZero = Fin 0"
| "fabs PInf = PInf"
| "fabs NInf = PInf"
| "fabs NaN = NaN"

fun flt :: "pyfloat \<Rightarrow> pyfloat \<Rightarrow> bool" where
  "flt NaN _ = False"
| "flt _ NaN = False"
| "flt (Fin a) (Fin b) = (a < b)"
| "flt (Fin a) NZero = (a < 0)"
| "flt NZero (Fin b) = (0 < b)"
| "flt NZero NZero = False"
| "flt (Fin _) PInf = True"
| "flt NZero PInf = True"
| "flt (Fin _) NInf = False"
| "flt NZero NInf = False"
| "flt PInf _ = False"
| "flt NInf NInf = False"
| "flt NInf _ = True"

text \<open>
  An integer operand of a float operation is converted to a float first; the conversion
  raises \<open>OverflowError\<close> when the integer is too large.
\<close>

definition float_of_int :: "int \<Rightarrow> py_error + rat" where
  "float_of_int n = (case rnd (of_int n) of Fin d \<Rightarrow> Inr d | _ \<Rightarrow> Inl OverflowError)"

text \<open>
  \<open>float / int\<close>: Python raises \<open>ZeroDivisionError\<close> when the divisor is zero, whatever
  the dividend.
\<close>

definition fdiv_int :: "pyfloat \<Rightarrow> int \<Rightarrow> py_error + pyfloat" where
  "fdiv_int a n =
     (case float_of_int n of
        Inl e \<Rightarrow> Inl e
      | Inr d \<Rightarrow>
         (if d = 0 then Inl ZeroDivisionError
          else Inr (case a of
                      Fin q \<Rightarrow> (if q = 0 then signed_zero (d < 0) else rnd (q / d))
                    | NZero \<Rightarrow> signed_zero (0 < d)
                    | PInf \<Rightarrow> signed_inf (d < 0)
                    | NInf \<Rightarrow> signed_inf (0 < d)
                    | NaN \<Rightarrow> NaN)))"

text \<open>\<open>float * int\<close>, for a finite float given by its value (\<open>0\<close> is \<open>0.0\<close>).\<close>

definition fmul_int :: "rat \<Rightarrow> int \<Rightarrow> py_error + pyfloat" where
  "fmul_int a n =
     (case float_of_int n of
        Inl e \<Rightarrow> Inl e
      | Inr d \<Rightarrow> Inr (if a * d = 0 then signed_zero ((a < 0) \<noteq> (d < 0)) else rnd (a * d)))"

text \<open>
  \<open>int / int\<close> is the float nearest to the exact quotient; it raises
  \<open>ZeroDivisionError\<close> for a zero divisor and \<open>OverflowError\<close> when the quotient is too
  large for a float. \<open>int(x)\<close> truncates a float towards zero.
\<close>

definition int_true_div :: "int \<Rightarrow> int \<Rightarrow> py_error + pyfloat" where
  "int_true_div a b =
     (if b = 0 then Inl ZeroDivisionError
      else if a = 0 then Inr (signed_zero (b < 0))
      else (case rnd (of_int a / of_int b) of
              PInf \<Rightarrow> Inl OverflowError
            | NInf \<Rightarrow> Inl OverflowError
            | v \<Rightarrow> Inr v))"

definition py_int :: "rat \<Rightarrow> int" where
  "py_int q = (if 0 \<le> q then \<lfloor>q\<rfloor> else \<lceil>q\<rceil>)"

definition py_int_float :: "pyfloat \<Rightarrow> py_error + int" where
  "py_int_float v =
     (case v of
        Fin q \<Rightarrow> Inr (py_int q)
      | NZero \<Rightarrow> Inr 0
      | NaN \<Rightarrow> Inl ValueError
      | _ \<Rightarrow> Inl OverflowError)"

text \<open>
  The builtins \<open>min(a, b)\<close> and \<open>max(a, b)\<close> keep the first argument unless the second
  is strictly smaller (larger).
\<close>

definition py_min2 :: "pyfloat \<Rightarrow> pyfloat \<Rightarrow> pyfloat" where
  "py_min2 a b = (if flt b a then b else a)"

definition py_max2 :: "pyfloat \<Rightarrow> pyfloat \<Rightarrow> pyfloat" where
  "py_max2 a b = (if flt a b then b else a)"

text \<open>\<open>min(xs)\<close> and \<open>max(xs)\<close> of a list raise \<open>ValueError\<close> on the empty list.\<close>

fun py_min_list :: "pyfloat list \<Rightarrow> py_error + pyfloat" where
  "py_min_list [] = Inl ValueError"
| "py_min_list (x # xs) = Inr (foldl py_min2 x xs)"

fun py_max_list :: "pyfloat list \<Rightarrow> py_error + pyfloat" where
  "py_max_list [] = Inl ValueError"
| "py_max_list (x # xs) = Inr (foldl py_max2 x xs)"

text \<open>\<open>xs[i]\<close> for a constant index \<open>i \<ge> 0\<close>.\<close>

definition py_index :: "'a list \<Rightarrow> nat \<Rightarrow> py_error + 'a" where
  "py_index xs i = (if i < length xs then Inr (xs ! i) else Inl IndexError)"

subsection \<open>Formatting\<close>

text \<open>Decimal digits of a natural number, as \<open>str\<close> and the format specifications print them.\<close>

definition digit_char :: "nat \<Rightarrow> char" where
  "digit_char d = ''0123456789'' ! d"

function show_nat :: "nat \<Rightarrow> string" where
  "show_nat n = (if n < 10 then [digit_char n] else show_nat (n div 10) @ [digit_char (n mod 10)])"
  by pat_completeness auto
termination
  by (relation "measure (\<lambda>n. n)") auto

declare show_nat.simps [simp del]

definition show_int :: "int \<Rightarrow> string" where
  "show_int i = (if i < 0 then ''-'' @ show_nat (nat (- i)) else show_nat (nat i))"

definition micro :: "rat \<Rightarrow> nat" where
  "micro q = nat (round_half_even (\<bar>q\<bar> * 1000000))"

definition pad6 :: "string \<Rightarrow> string" where
  "pad6 s = replicate (6 - length s) (CHR ''0'') @ s"

text \<open>
  \<open>f"{x:.6f}"\<close>: sign, integer part, point, six digits; \<open>micro q\<close> is the value in
  millionths, rounded to the nearest, ties to even.
\<close>

fun fmt6 :: "pyfloat \<Rightarrow> string" where
  "fmt6 (Fin q) =
     (if q < 0 then ''-'' else []) @
     show_nat (micro q div 1000000) @ ''.'' @ pad6 (show_nat (micro q mod 1000000))"
| "fmt6 NZero = ''-0.000000''"
| "fmt6 PInf = ''inf''"
| "fmt6 NInf = ''-inf''"
| "fmt6 NaN = ''nan''"

section \<open>YOLO coordinate conversion\<close>

text \<open>
  \<open>Utils.convert_to_yolo_format(image_width, image_height, key_points)\<close>. The four
  local variables are computed in the order of the source, so that the first failing
  subscript or division decides the exception.
\<close>

definition yolo_x_center :: "int \<Rightarrow> pyfloat list \<Rightarrow> py_error + pyfloat" where
  "yolo_x_center image_width key_points =
     (case py_index key_points 0 of Inl e \<Rightarrow> Inl e | Inr k0 \<Rightarrow>
     (case py_index key_points 2 of Inl e \<Rightarrow> Inl e | Inr k2 \<Rightarrow>
     (case fdiv_int (fadd k0 k2) 2 of Inl e \<Rightarrow> Inl e | Inr h \<Rightarrow>
      fdiv_int h image_width)))"

definition yolo_y_center :: "int \<Rightarrow> pyfloat list \<Rightarrow> py_error + pyfloat" where
  "yolo_y_center image_height key_points =
     (case py_index key_points 1 of Inl e \<Rightarrow> Inl e | Inr k1 \<Rightarrow>
     (case py_index key_points 3 of Inl e \<Rightarrow> Inl e | Inr k3 \<Rightarrow>
     (case fdiv_int (fadd k1 k3) 2 of Inl e \<Rightarrow> Inl e | Inr h \<Rightarrow>
      fdiv_int h image_height)))"

definition yolo_width :: "int \<Rightarrow> pyfloat list \<Rightarrow> py_error + pyfloat" where
  "yolo_width image_width key_points =
     (case py_index key_points 2 of Inl e \<Rightarrow> Inl e | Inr k2 \<Rightarrow>
     (case py_index key_points 0 of Inl e \<Rightarrow> Inl e | Inr k0 \<Rightarrow>
      fdiv_int (fabs (fsub k2 k0)) image_width))"

definition yolo_height :: "int \<Rightarrow> pyfloat list \<Rightarrow> py_error + pyfloat" where
  "yolo_height image_height key_points =
     (case py_index key_points 3 of Inl e \<Rightarrow> Inl e | Inr k3 \<Rightarrow>
     (case py_index key_points 1 of Inl e \<Rightarrow> Inl e | Inr k1 \<Rightarrow>
      fdiv_int (fabs (fsub k3 k1)) image_height))"

definition convert_to_yolo_format :: "int \<Rightarrow> int \<Rightarrow> pyfloat list \<Rightarrow> py_error + string" where
  "convert_to_yolo_format image_width image_height key_points =
     (case yolo_x_center image_width key_points of Inl e \<Rightarrow> Inl e | Inr x_center \<Rightarrow>
     (case yolo_y_center image_height key_points of Inl e \<Rightarrow> Inl e | Inr y_center \<Rightarrow>
     (case yolo_width image_width key_points of Inl e \<Rightarrow> Inl e | Inr width \<Rightarrow>
     (case yolo_height image_height key_points of Inl e \<Rightarrow> Inl e | Inr height \<Rightarrow>
      Inr (fmt6 x_center @ '' '' @ fmt6 y_center @ '' '' @ fmt6 width @ '' '' @ fmt6 height)))))"

section \<open>Data model\<close>

text \<open>
  A landmark of the detector has the attributes \<open>x\<close>, \<open>y\<close>, \<open>z\<close> (normalised floats,
  given by their values).
  \<open>hand_landmarks.landmark\<close> is the list of the landmarks of one hand, and
  \<open>hand_info.classification\<close> the list of the classifications of one hand, of which the
  code reads the \<open>label\<close>. Both attributes of a detection result are \<open>None\<close> or a list.
\<close>

record landmark =
  lm_x :: rat
  lm_y :: rat
  lm_z :: rat

record hand_landmarks =
  landmark :: "landmark list"

record hand_info =
  classification :: "string list"

record results =
  multi_hand_landmarks :: "hand_landmarks list option"
  multi_handedness :: "hand_info list option"

text \<open>
  An image is read through \<open>shape = (rows, columns, channels)\<close> only; what
  \<open>cv2.rectangle\<close> and \<open>cv2.putText\<close> paint on it is kept as the list of the drawing
  calls made on the buffer, in order.
\<close>

datatype draw_op =
    Rectangle "int \<times> int" "int \<times> int" "int \<times> int \<times> int" int
  | PutText string "int \<times> int" rat "int \<times> int \<times> int" int

record image =
  rows :: int
  cols :: int
  channels :: int
  drawn :: "draw_op list"

text \<open>
  The fields of a \<open>Utils\<close> object. The four constructor arguments default to \<open>None\<close>;
  the constructor sets \<open>save_frequency\<close> and \<open>offset\<close> to 10. (It also creates one
  directory for each action; the directories are not part of this model.)
\<close>

record Utils =
  DATA_PATH :: "string option"
  actions :: "string list option"
  imgSize :: "int option"
  size_data :: "int option"
  save_frequency :: int
  offset :: int

definition Utils_init ::
  "string option \<Rightarrow> string list option \<Rightarrow> int option \<Rightarrow> int option \<Rightarrow> Utils" where
  "Utils_init data_path acts img_size sz =
     \<lparr>DATA_PATH = data_path, actions = acts, imgSize = img_size, size_data = sz,
      save_frequency = 10, offset = 10\<rparr>"

text \<open>
  Files: a finite table from paths to contents. \<open>os.path.exists\<close> is membership,
  writing replaces or adds an entry. Paths are compared as strings.
\<close>

type_synonym 'a files = "(string \<times> 'a) list"

definition path_exists :: "'a files \<Rightarrow> string \<Rightarrow> bool" where
  "path_exists fs p = (map_of fs p \<noteq> None)"

definition write_file :: "string \<Rightarrow> 'a \<Rightarrow> 'a files \<Rightarrow> 'a files" where
  "write_file p v fs = AList.update p v fs"

text \<open>\<open>open(p, 'a')\<close> creates an empty file when there is none; \<open>f.write(s)\<close> appends.\<close>

definition open_append :: "string \<Rightarrow> string files \<Rightarrow> string files" where
  "open_append p fs = (case map_of fs p of None \<Rightarrow> write_file p [] fs | Some _ \<Rightarrow> fs)"

definition append_text :: "string \<Rightarrow> string \<Rightarrow> string files \<Rightarrow> string files" where
  "append_text p s fs =
     (case map_of fs p of None \<Rightarrow> write_file p s fs | Some c \<Rightarrow> write_file p (c @ s) fs)"

section \<open>Annotation writer\<close>

text \<open>The slices \<open>xs[0::2]\<close> and \<open>xs[1::2]\<close>.\<close>

fun every_other :: "'a list \<Rightarrow> 'a list" where
  "every_other [] = []"
| "every_other [x] = [x]"
| "every_other (x # y # xs) = x # every_other xs"

definition slice_0_2 :: "'a list \<Rightarrow> 'a list" where
  "slice_0_2 xs = every_other xs"

definition slice_1_2 :: "'a list \<Rightarrow> 'a list" where
  "slice_1_2 xs = every_other (drop 1 xs)"

text \<open>
  The inner loop of \<open>anotation_data\<close> over the landmarks of one hand: it extends
  \<open>keypoints\<close> by \<open>x_rel\<close> and \<open>y_rel\<close>, and binds \<open>alto\<close> and \<open>ancho\<close> in every
  iteration. The local variables \<open>alto, ancho\<close> are \<open>None\<close> while they are unbound.
\<close>

fun keypoints_loop ::
  "image \<Rightarrow> landmark list \<Rightarrow> pyfloat list \<times> (int \<times> int) option
     \<Rightarrow> py_error + (pyfloat list \<times> (int \<times> int) option)" where
  "keypoints_loop img [] st = Inr st"
| "keypoints_loop img (lm # lms) (keypoints, dims) =
     (let alto = rows img; ancho = cols img in
      case fmul_int (lm_x lm) ancho of Inl e \<Rightarrow> Inl e | Inr x_rel \<Rightarrow>
     (case fmul_int (lm_y lm) alto of Inl e \<Rightarrow> Inl e | Inr y_rel \<Rightarrow>
      keypoints_loop img lms (keypoints @ [x_rel, y_rel], Some (alto, ancho))))"

record anot_state =
  cur_x_min :: pyfloat
  cur_y_min :: pyfloat
  cur_x_max :: pyfloat
  cur_y_max :: pyfloat
  cur_dims :: "(int \<times> int) option"

definition hand_step :: "image \<Rightarrow> anot_state \<Rightarrow> hand_landmarks \<Rightarrow> py_error + anot_state" where
  "hand_step img s hand =
     (case keypoints_loop img (landmark hand) ([], cur_dims s) of Inl e \<Rightarrow> Inl e
      | Inr (keypoints, dims') \<Rightarrow>
     (case py_min_list (slice_0_2 keypoints) of Inl e \<Rightarrow> Inl e | Inr hand_x_min \<Rightarrow>
     (case py_min_list (slice_1_2 keypoints) of Inl e \<Rightarrow> Inl e | Inr hand_y_min \<Rightarrow>
     (case py_max_list (slice_0_2 keypoints) of Inl e \<Rightarrow> Inl e | Inr hand_x_max \<Rightarrow>
     (case py_max_list (slice_1_2 keypoints) of Inl e \<Rightarrow> Inl e | Inr hand_y_max \<Rightarrow>
      Inr \<lparr>cur_x_min = py_min2 (cur_x_min s) hand_x_min,
           cur_y_min = py_min2 (cur_y_min s) hand_y_min,
           cur_x_max = py_max2 (cur_x_max s) hand_x_max,
           cur_y_max = py_max2 (cur_y_max s) hand_y_max,
           cur_dims = dims'\<rparr>)))))"

fun hands_loop :: "image \<Rightarrow> hand_landmarks list \<Rightarrow> anot_state \<Rightarrow> py_error + anot_state" where
  "hands_loop img [] s = Inr s"
| "hands_loop img (hand # hands) s =
     (case hand_step img s hand of Inl e \<Rightarrow> Inl e | Inr s' \<Rightarrow> hands_loop img hands s')"

definition anot_init :: anot_state where
  "anot_init = \<lparr>cur_x_min = PInf, cur_y_min = PInf, cur_x_max = NInf, cur_y_max = NInf, cur_dims = None\<rparr>"

definition newline :: string where
  "newline = [CHR 0x0A]"

text \<open>
  \<open>Utils.anotation_data(results, image, annotation_file, class_index)\<close>. The result is
  the outcome (an exception or normal return) and the files afterwards; the file is
  opened before anything can fail, and closed by the \<open>with\<close> statement in every case.
\<close>

definition anotation_data ::
  "results \<Rightarrow> image \<Rightarrow> string \<Rightarrow> int \<Rightarrow> string files \<Rightarrow> (py_error + unit) \<times> string files" where
  "anotation_data res img annotation_file class_index fs =
     (let fs1 = open_append annotation_file fs in
      case multi_hand_landmarks res of
        None \<Rightarrow> (Inl TypeError, fs1)
      | Some hands \<Rightarrow>
         (case hands_loop img hands anot_init of
            Inl e \<Rightarrow> (Inl e, fs1)
          | Inr s \<Rightarrow>
             (let x_min' = fsub (cur_x_min s) (Fin 20);
                  y_min' = fsub (cur_y_min s) (Fin 20);
                  x_max' = fadd (cur_x_max s) (Fin 20);
                  y_max' = fadd (cur_y_max s) (Fin 20)
              in case cur_dims s of
                   None \<Rightarrow> (Inl UnboundLocalError, fs1)
                 | Some (alto, ancho) \<Rightarrow>
                    (case convert_to_yolo_format ancho alto [x_min', y_min', x_max', y_max'] of
                       Inl e \<Rightarrow> (Inl e, fs1)
                     | Inr yolo \<Rightarrow>
                        (Inr (),
                         append_text annotation_file
                           (show_int class_index @ '' '' @ yolo @ newline) fs1)))))"

section \<open>Hand selection by type\<close>

type_synonym position = "rat \<times> rat \<times> rat"

text \<open>
  \<open>Utils.get_position(positions, results, copie_img)\<close> appends to the list
  \<open>positions\<close> in place; the model returns the list afterwards. Iterating \<open>None\<close>
  raises \<open>TypeError\<close>.
\<close>

definition scale_landmark :: "image \<Rightarrow> landmark \<Rightarrow> position" where
  "scale_landmark copie_img lm =
     (let alto = rows copie_img; ancho = cols copie_img
      in (lm_x lm * of_int ancho, lm_y lm * of_int alto, lm_z lm * of_int ancho))"

definition get_position :: "position list \<Rightarrow> results \<Rightarrow> image \<Rightarrow> py_error + position list" where
  "get_position positions res copie_img =
     (case multi_hand_landmarks res of
        None \<Rightarrow> Inl TypeError
      | Some hands \<Rightarrow>
          Inr (foldl (\<lambda>ps hand. foldl (\<lambda>ps' lm. ps' @ [scale_landmark copie_img lm]) ps (landmark hand))
                 positions hands))"

text \<open>
  \<open>Utils.Detect_hand_type(hand_type, results, positions, copie_img)\<close>. The body of the
  \<open>for\<close> loop ends with \<open>return positions\<close>, so it runs for the first element of
  \<open>results.multi_handedness\<close> only; over an empty list the loop body never runs and the
  function returns \<open>None\<close>. The result is the list \<open>positions\<close> afterwards, paired
  with the returned value.
\<close>

definition Detect_hand_type ::
  "string \<Rightarrow> results \<Rightarrow> position list \<Rightarrow> image
     \<Rightarrow> py_error + (position list \<times> position list option)" where
  "Detect_hand_type hand_type res positions copie_img =
     (case multi_handedness res of
        None \<Rightarrow> Inl TypeError
      | Some [] \<Rightarrow> Inr (positions, None)
      | Some (hand_info # _) \<Rightarrow>
         (case py_index (classification hand_info) 0 of
            Inl e \<Rightarrow> Inl e
          | Inr hand_types \<Rightarrow>
             (case (if hand_types = hand_type then get_position positions res copie_img
                    else Inr positions) of
                Inl e \<Rightarrow> Inl e
              | Inr positions1 \<Rightarrow>
                 (case (if hand_type = ''all'' then get_position positions1 res copie_img
                        else Inr positions1) of
                    Inl e \<Rightarrow> Inl e
                  | Inr positions2 \<Rightarrow> Inr (positions2, Some positions2)))))"

section \<open>Bounding box, drawing and crop\<close>

text \<open>
  \<open>min(xs, key=f)\<close> and \<open>max(xs, key=f)\<close> return the first element with the least
  (greatest) key and raise \<open>ValueError\<close> on the empty list.
\<close>

fun py_min_key :: "('a \<Rightarrow> rat) \<Rightarrow> 'a list \<Rightarrow> py_error + 'a" where
  "py_min_key key [] = Inl ValueError"
| "py_min_key key (x # xs) = Inr (foldl (\<lambda>best y. if key y < key best then y else best) x xs)"

fun py_max_key :: "('a \<Rightarrow> rat) \<Rightarrow> 'a list \<Rightarrow> py_error + 'a" where
  "py_max_key key [] = Inl ValueError"
| "py_max_key key (x # xs) = Inr (foldl (\<lambda>best y. if key best < key y then y else best) x xs)"

definition pos_x :: "position \<Rightarrow> rat" where
  "pos_x p = fst p"

definition pos_y :: "position \<Rightarrow> rat" where
  "pos_y p = fst (snd p)"

text \<open>
  The first four assignments of \<open>Draw_Bound_Boxes\<close> and of \<open>Get_image_resized\<close>
  (the same text in both): \<open>x_min, y_min, x_max, y_max\<close>.
\<close>

definition bound_box :: "position list \<Rightarrow> py_error + (int \<times> int \<times> int \<times> int)" where
  "bound_box positions =
     (case py_min_key pos_x positions of Inl e \<Rightarrow> Inl e | Inr px_min \<Rightarrow>
     (case py_min_key pos_y positions of Inl e \<Rightarrow> Inl e | Inr py_min \<Rightarrow>
     (case py_max_key pos_x positions of Inl e \<Rightarrow> Inl e | Inr px_max \<Rightarrow>
     (case py_max_key pos_y positions of Inl e \<Rightarrow> Inl e | Inr py_max \<Rightarrow>
      Inr (py_int (pos_x px_min), py_int (pos_y py_min),
           py_int (pos_x px_max), py_int (pos_y py_max))))))"

text \<open>\<open>Utils.Draw_Bound_Boxes(self, positions, frame, cls)\<close>: the frame afterwards.\<close>

definition Draw_Bound_Boxes :: "Utils \<Rightarrow> position list \<Rightarrow> image \<Rightarrow> string \<Rightarrow> py_error + image" where
  "Draw_Bound_Boxes self positions frame cls =
     (case bound_box positions of
        Inl e \<Rightarrow> Inl e
      | Inr (x_min, y_min, x_max, y_max) \<Rightarrow>
         (let width = x_max - x_min;
              height = y_max - y_min;
              x1 = x_min; y1 = y_min;
              x2 = x_min + width; y2 = y_min + height
          in if y1 - offset self - 15 \<ge> 0 \<and> y2 - offset self + 40 \<le> rows frame
                \<and> x1 - offset self - 40 \<ge> 0 \<and> x2 - offset self + 50 \<le> cols frame
             then Inr (frame\<lparr>drawn := drawn frame @
                    [Rectangle (x1 - offset self - 40, y1 - offset self - 15)
                               (x2 - offset self + 50, y2 - offset self + 40) (0, 255, 0) 3,
                     PutText cls (x1 - offset self - 40, y1 - offset self - 20)
                             (3 / 5) (225, 255, 255) 1]\<rparr>)
             else Inr frame))"

text \<open>
  The number of elements that the slice \<open>a[start:stop]\<close> selects from an axis of length
  \<open>n\<close>: negative bounds count from the end, and both are clipped to the axis.
\<close>

definition slice_bound :: "int \<Rightarrow> int \<Rightarrow> int" where
  "slice_bound n i = (if i < 0 then max 0 (i + n) else min i n)"

definition slice_len :: "int \<Rightarrow> int \<Rightarrow> int \<Rightarrow> int" where
  "slice_len n start stop = max 0 (slice_bound n stop - slice_bound n start)"

text \<open>
  \<open>cv2.resize(src, (w, h), interpolation=cv2.INTER_CUBIC)\<close>, by the documentation of
  OpenCV: it fails on an empty source and on a size that is not positive (here also
  \<open>None\<close>), and else returns an image of \<open>h\<close> rows and \<open>w\<close> columns with the channels
  of the source. The interpolated pixel values are not modelled.
\<close>

definition cv2_resize :: "image \<Rightarrow> int option \<Rightarrow> int option \<Rightarrow> py_error + image" where
  "cv2_resize src w h =
     (case (w, h) of
        (Some w', Some h') \<Rightarrow>
          (if rows src \<le> 0 \<or> cols src \<le> 0 \<or> w' \<le> 0 \<or> h' \<le> 0 then Inl CvError
           else Inr \<lparr>rows = h', cols = w', channels = channels src, drawn = []\<rparr>)
      | _ \<Rightarrow> Inl CvError)"

text \<open>
  \<open>Utils.Get_image_resized(self, positions, copie_img)\<close>. The variables \<open>ancho\<close> and
  \<open>alto\<close> are assigned twice in the source; the second values are \<open>ancho'\<close> and
  \<open>alto'\<close>. \<open>crop_region\<close> gives \<open>(x1, y1, x2, y2)\<close>, the bounds of the slice
  \<open>copie_img[y1:y2, x1:x2]\<close>; \<open>half\<close> is the value of \<open>int(lado / 2)\<close>, which the
  source computes twice. (\<open>cv2.imshow\<close> only displays the result.)
\<close>

definition crop_region :: "position list \<Rightarrow> image \<Rightarrow> py_error + (int \<times> int \<times> int \<times> int)" where
  "crop_region positions copie_img =
     (let alto = rows copie_img; ancho = cols copie_img in
      case bound_box positions of
        Inl e \<Rightarrow> Inl e
      | Inr (x_min, y_min, x_max, y_max) \<Rightarrow>
         (let width = x_max - x_min;
              height = y_max - y_min
          in case int_true_div (x_min + x_max) 2 of Inl e \<Rightarrow> Inl e | Inr cx \<Rightarrow>
            (case py_int_float cx of Inl e \<Rightarrow> Inl e | Inr centro_x \<Rightarrow>
            (case int_true_div (y_min + y_max) 2 of Inl e \<Rightarrow> Inl e | Inr cy \<Rightarrow>
            (case py_int_float cy of Inl e \<Rightarrow> Inl e | Inr centro_y \<Rightarrow>
            (let lado = max width height in
             case int_true_div lado 2 of Inl e \<Rightarrow> Inl e | Inr hl \<Rightarrow>
            (case py_int_float hl of Inl e \<Rightarrow> Inl e | Inr half \<Rightarrow>
            (let x1 = max 0 (centro_x - half - 50);
                 y1 = max 0 (centro_y - half - 50);
                 ancho' = min (ancho - x1) (lado + 100);
                 alto' = min (alto - y1) (lado + 100);
                 x2 = x1 + ancho'; y2 = y1 + alto'
             in Inr (x1, y1, x2, y2)))))))))"

definition Get_image_resized :: "Utils \<Rightarrow> position list \<Rightarrow> image \<Rightarrow> py_error + image" where
  "Get_image_resized self positions copie_img =
     (case crop_region positions copie_img of
        Inl e \<Rightarrow> Inl e
      | Inr (x1, y1, x2, y2) \<Rightarrow>
         (let resized_hand =
                \<lparr>rows = slice_len (rows copie_img) y1 y2,
                 cols = slice_len (cols copie_img) x1 x2,
                 channels = channels copie_img, drawn = []\<rparr>
          in cv2_resize resized_hand (imgSize self) (imgSize self)))"

section \<open>Saving with collision avoidance\<close>

text \<open>\<open>os.path.join\<close> of the POSIX flavour, for two components.\<close>

definition py_join :: "string \<Rightarrow> string \<Rightarrow> string" where
  "py_join a b =
     (if b \<noteq> [] \<and> hd b = CHR ''/'' then b
      else if a = [] \<or> last a = CHR ''/'' then a @ b
      else a @ ''/'' @ b)"

definition image_name :: "nat \<Rightarrow> string \<Rightarrow> int \<Rightarrow> string" where
  "image_name sequence hand_type count =
     ''sequence '' @ show_nat sequence @ '' capture '' @ hand_type @ '' '' @ show_int count
       @ ''.png''"

definition new_image_name :: "nat \<Rightarrow> string \<Rightarrow> int \<Rightarrow> nat \<Rightarrow> string" where
  "new_image_name sequence hand_type count index =
     ''sequence '' @ show_nat sequence @ '' capture '' @ hand_type @ '' '' @ show_int count
       @ ''_'' @ show_nat index @ ''.png''"

definition image_path_of :: "string \<Rightarrow> string \<Rightarrow> nat \<Rightarrow> string \<Rightarrow> int \<Rightarrow> string" where
  "image_path_of data_path action sequence hand_type count =
     py_join (py_join data_path action) (image_name sequence hand_type count)"

definition new_image_path_of ::
  "string \<Rightarrow> string \<Rightarrow> nat \<Rightarrow> string \<Rightarrow> int \<Rightarrow> nat \<Rightarrow> string" where
  "new_image_path_of data_path action sequence hand_type count index =
     py_join (py_join data_path action) (new_image_name sequence hand_type count index)"

subsection \<open>Different indices give different paths\<close>

lemma digit_char_inj: "a < 10 \<Longrightarrow> b < 10 \<Longrightarrow> digit_char a = digit_char b \<Longrightarrow> a = b"
proof -
  assume a: "a < 10" and b: "b < 10" and e: "digit_char a = digit_char b"
  have d: "distinct ''0123456789''" by simp
  have "a < length ''0123456789''" "b < length ''0123456789''" using a b by simp_all
  with d e show "a = b" unfolding digit_char_def by (simp only: nth_eq_iff_index_eq)
qed

lemma show_nat_small: "n < 10 \<Longrightarrow> show_nat n = [digit_char n]"
  by (simp add: show_nat.simps)

lemma show_nat_large:
  "10 \<le> n \<Longrightarrow> show_nat n = show_nat (n div 10) @ [digit_char (n mod 10)]"
  by (subst show_nat.simps) simp

lemma show_nat_nonempty: "show_nat n \<noteq> []"
  by (subst show_nat.simps) simp

lemma show_nat_inj: "show_nat m = show_nat n \<Longrightarrow> m = n"
proof (induction m arbitrary: n rule: show_nat.induct)
  case (1 m)
  show ?case
  proof (cases "m < 10")
    case small_m: True
    show ?thesis
    proof (cases "n < 10")
      case True
      with small_m "1.prems" have "digit_char m = digit_char n"
        by (simp add: show_nat_small)
      with small_m True show ?thesis by (rule digit_char_inj)
    next
      case False
      then have "show_nat n = show_nat (n div 10) @ [digit_char (n mod 10)]"
        by (simp add: show_nat_large)
      moreover have "show_nat m = [digit_char m]"
        using small_m by (simp add: show_nat_small)
      ultimately have "show_nat (n div 10) = []"
        using "1.prems" by simp
      then show ?thesis by (simp add: show_nat_nonempty)
    qed
  next
    case large_m: False
    then have em: "show_nat m = show_nat (m div 10) @ [digit_char (m mod 10)]"
      by (simp add: show_nat_large)
    show ?thesis
    proof (cases "n < 10")
      case True
      then have "show_nat n = [digit_char n]" by (simp add: show_nat_small)
      with em "1.prems" have "show_nat (m div 10) = []" by simp
      then show ?thesis by (simp add: show_nat_nonempty)
    next
      case False
      then have en: "show_nat n = show_nat (n div 10) @ [digit_char (n mod 10)]"
        by (simp add: show_nat_large)
      from em en "1.prems" have a: "show_nat (m div 10) = show_nat (n div 10)"
        and b: "digit_char (m mod 10) = digit_char (n mod 10)" by simp_all
      from large_m a have q: "m div 10 = n div 10" by (rule "1.IH")
      have "m mod 10 < 10" "n mod 10 < 10" by simp_all
      then have r: "m mod 10 = n mod 10" using b by (rule digit_char_inj)
      have "m = 10 * (m div 10) + m mod 10" by simp
      also have "\<dots> = 10 * (n div 10) + n mod 10" by (simp only: q r)
      also have "\<dots> = n" by simp
      finally show ?thesis .
    qed
  qed
qed

lemma py_join_relative: "b \<noteq> [] \<Longrightarrow> hd b \<noteq> CHR ''/'' \<Longrightarrow> \<exists>pre. \<forall>c. c \<noteq> [] \<longrightarrow> hd c \<noteq> CHR ''/'' \<longrightarrow> py_join a c = pre @ c"
  by (cases "a = [] \<or> last a = CHR ''/''") (auto simp: py_join_def)

lemma new_image_path_of_inj:
  "new_image_path_of d a s h c i = new_image_path_of d a s h c j \<Longrightarrow> i = j"
proof -
  assume e: "new_image_path_of d a s h c i = new_image_path_of d a s h c j"
  have ne: "\<And>k. new_image_name s h c k \<noteq> [] \<and> hd (new_image_name s h c k) \<noteq> CHR ''/''"
    by (simp add: new_image_name_def)
  obtain pre where pre: "\<And>k. py_join (py_join d a) (new_image_name s h c k) = pre @ new_image_name s h c k"
    using py_join_relative [of "new_image_name s h c 0" "py_join d a"] ne by blast
  from e have "new_image_name s h c i = new_image_name s h c j"
    by (simp add: new_image_path_of_def pre)
  then have "show_nat i = show_nat j" by (simp add: new_image_name_def)
  then show "i = j" by (rule show_nat_inj)
qed

subsection \<open>The probe loop\<close>

text \<open>
  The \<open>while True\<close> loop of \<open>Save_resized_hand\<close>, entered with \<open>index = 1\<close>: it
  returns the first candidate path that does not exist. The files are a finite table,
  and different indices give different paths, so the candidates that exist from
  \<open>index\<close> on are finitely many, and one fewer after every step.
\<close>

definition taken_from :: "'a files \<Rightarrow> string \<Rightarrow> string \<Rightarrow> nat \<Rightarrow> string \<Rightarrow> int \<Rightarrow> nat \<Rightarrow> nat set" where
  "taken_from fs d a s h c index =
     {j. index \<le> j \<and> path_exists fs (new_image_path_of d a s h c j)}"

lemma finite_taken_from: "finite (taken_from fs d a s h c index)"
proof -
  have "inj_on (new_image_path_of d a s h c) (taken_from fs d a s h c index)"
    by (rule inj_onI) (rule new_image_path_of_inj)
  moreover have "new_image_path_of d a s h c ` taken_from fs d a s h c index \<subseteq> fst ` set fs"
    by (auto simp: taken_from_def path_exists_def dest: map_of_SomeD intro: rev_image_eqI)
  moreover have "finite (fst ` set fs)" by simp
  ultimately show ?thesis by (meson finite_subset finite_imageD)
qed

lemma taken_from_step:
  "path_exists fs (new_image_path_of d a s h c index) \<Longrightarrow>
   card (taken_from fs d a s h c (Suc index)) < card (taken_from fs d a s h c index)"
proof -
  assume ex: "path_exists fs (new_image_path_of d a s h c index)"
  have "taken_from fs d a s h c (Suc index) \<subseteq> taken_from fs d a s h c index"
    by (auto simp: taken_from_def)
  moreover have "index \<in> taken_from fs d a s h c index" using ex by (simp add: taken_from_def)
  moreover have "index \<notin> taken_from fs d a s h c (Suc index)" by (simp add: taken_from_def)
  ultimately have "taken_from fs d a s h c (Suc index) \<subset> taken_from fs d a s h c index"
    by blast
  then show ?thesis by (rule psubset_card_mono [OF finite_taken_from])
qed

function find_free ::
  "'a files \<Rightarrow> string \<Rightarrow> string \<Rightarrow> nat \<Rightarrow> string \<Rightarrow> int \<Rightarrow> nat \<Rightarrow> string" where
  "find_free fs data_path action sequence hand_type count index =
     (let new_image_path = new_image_path_of data_path action sequence hand_type count index
      in if \<not> path_exists fs new_image_path then new_image_path
         else find_free fs data_path action sequence hand_type count (index + 1))"
  by pat_completeness auto
termination
  by (relation "measure (\<lambda>(fs, d, a, s, h, c, index). card (taken_from fs d a s h c index))")
     (simp_all add: taken_from_step)

declare find_free.simps [simp del]

text \<open>
  The body of the two \<open>for\<close> loops: the path is chosen, and \<open>cv2.imwrite\<close> writes the
  image there. \<open>chosen_path\<close> is the value of \<open>image_path\<close> at the call of
  \<open>cv2.imwrite\<close>.
\<close>

definition chosen_path :: "'a files \<Rightarrow> string \<Rightarrow> string \<Rightarrow> nat \<Rightarrow> string \<Rightarrow> int \<Rightarrow> string" where
  "chosen_path fs data_path action sequence hand_type count =
     (let image_path = image_path_of data_path action sequence hand_type count
      in if path_exists fs image_path
         then find_free fs data_path action sequence hand_type count 1
         else image_path)"

definition save_one :: "string \<Rightarrow> string \<Rightarrow> 'a \<Rightarrow> int \<Rightarrow> string \<Rightarrow> 'a files \<Rightarrow> nat \<Rightarrow> 'a files" where
  "save_one data_path action resized_hand count hand_type fs sequence =
     write_file (chosen_path fs data_path action sequence hand_type count) resized_hand fs"

text \<open>
  \<open>for sequence in range(self.save_frequency)\<close> and \<open>for action in self.actions\<close>:
  the exception raised, if any, and the files afterwards. \<open>os.path.join\<close> raises
  \<open>TypeError\<close> when \<open>DATA_PATH\<close> is \<open>None\<close>.
\<close>

fun sequence_loop ::
  "string option \<Rightarrow> string \<Rightarrow> 'a \<Rightarrow> int \<Rightarrow> string \<Rightarrow> nat list \<Rightarrow> 'a files
     \<Rightarrow> py_error option \<times> 'a files" where
  "sequence_loop dp action resized_hand count hand_type [] fs = (None, fs)"
| "sequence_loop dp action resized_hand count hand_type (sequence # rest) fs =
     (case dp of
        None \<Rightarrow> (Some TypeError, fs)
      | Some data_path \<Rightarrow>
          sequence_loop dp action resized_hand count hand_type rest
            (save_one data_path action resized_hand count hand_type fs sequence))"

fun actions_loop ::
  "string option \<Rightarrow> int \<Rightarrow> 'a \<Rightarrow> int \<Rightarrow> string \<Rightarrow> string list \<Rightarrow> 'a files
     \<Rightarrow> py_error option \<times> 'a files" where
  "actions_loop dp freq resized_hand count hand_type [] fs = (None, fs)"
| "actions_loop dp freq resized_hand count hand_type (action # rest) fs =
     (case sequence_loop dp action resized_hand count hand_type [0..<nat freq] fs of
        (Some e, fs') \<Rightarrow> (Some e, fs')
      | (None, fs') \<Rightarrow> actions_loop dp freq resized_hand count hand_type rest fs')"

datatype outcome = Returned | Exited int

text \<open>\<open>n >= x\<close> for an integer \<open>n\<close> and a float \<open>x\<close>: Python compares the exact values.\<close>

definition int_ge_float :: "int \<Rightarrow> pyfloat \<Rightarrow> bool" where
  "int_ge_float n v =
     (case v of
        Fin q \<Rightarrow> q \<le> of_int n
      | NZero \<Rightarrow> 0 \<le> n
      | PInf \<Rightarrow> False
      | NInf \<Rightarrow> True
      | NaN \<Rightarrow> False)"

text \<open>
  \<open>Utils.Save_resized_hand(self, resized_hand, count, hand_type)\<close>: the exception
  raised, or whether the call returned or ended the process with \<open>exit(0)\<close>, and
  the files afterwards.
\<close>

definition Save_resized_hand ::
  "Utils \<Rightarrow> 'a \<Rightarrow> int \<Rightarrow> string \<Rightarrow> 'a files \<Rightarrow> (py_error + outcome) \<times> 'a files" where
  "Save_resized_hand self resized_hand count hand_type fs =
     (case actions self of
        None \<Rightarrow> (Inl TypeError, fs)
      | Some acts \<Rightarrow>
         (case actions_loop (DATA_PATH self) (save_frequency self) resized_hand count hand_type
                 acts fs of
            (Some e, fs') \<Rightarrow> (Inl e, fs')
          | (None, fs') \<Rightarrow>
             (case size_data self of
                None \<Rightarrow> (Inl TypeError, fs')
              | Some total_images \<Rightarrow>
                 (case int_true_div total_images (save_frequency self) of
                    Inl e \<Rightarrow> (Inl e, fs')
                  | Inr limit \<Rightarrow>
                     (if int_ge_float count limit then (Inr (Exited 0), fs')
                      else (Inr Returned, fs'))))))"

section \<open>Properties of the conversion\<close>

subsection \<open>Evaluation of the formats and of the rounding\<close>

lemma floor_rat_numeral: "\<lfloor>(numeral a / numeral b :: rat)\<rfloor> = numeral a div numeral b"
  by (metis floor_divide_of_int_eq of_int_numeral)

lemma floor_rat_one_numeral: "\<lfloor>(1 / numeral b :: rat)\<rfloor> = 1 div numeral b"
  by (metis floor_divide_of_int_eq of_int_numeral of_int_1)

lemma digit_char_simps:
  "digit_char 0 = CHR ''0''" "digit_char 1 = CHR ''1''" "digit_char 2 = CHR ''2''"
  "digit_char 3 = CHR ''3''" "digit_char 4 = CHR ''4''" "digit_char 5 = CHR ''5''"
  "digit_char 6 = CHR ''6''" "digit_char 7 = CHR ''7''" "digit_char 8 = CHR ''8''"
  "digit_char 9 = CHR ''9''" "digit_char (Suc 0) = CHR ''1''"
  by (simp_all add: digit_char_def)

lemma replicate_numeral_unfold: "replicate (numeral k) c = c # replicate (pred_numeral k) c"
  by (simp add: numeral_eq_Suc)

lemmas show_eval = show_nat_small show_nat_large digit_char_simps replicate_numeral_unfold
  pad6_def micro_def round_half_even_def show_int_def

lemmas rnd_eval = rnd_def rnd_mag_def ulp_def expo_def round_half_even_def Let_def compute_bitlen
  signed_zero_def signed_inf_def power_int_minus_divide floor_rat_numeral floor_rat_one_numeral
  float_of_int_def fdiv_int_def fsub_def

subsection \<open>The rounding is to a nearest float\<close>



lemma round_half_even_nearest:
  "\<bar>of_int (round_half_even q) - q\<bar> \<le> 1 / 2 \<and>
   (\<bar>of_int (round_half_even q) - q\<bar> = 1 / 2 \<longrightarrow> even (round_half_even q))"
proof -
  define f where "f = \<lfloor>q\<rfloor>"
  define r where "r = q - of_int f"
  have r0: "0 \<le> r" and r1: "r < 1" unfolding r_def f_def by linarith+
  have q: "q = of_int f + r" by (simp add: r_def)
  have d0: "\<bar>of_int f - q\<bar> = r" using r0 by (simp add: r_def)
  have d1: "\<bar>of_int (f + 1) - q\<bar> = 1 - r" using r1 by (simp add: r_def)
  consider "r < 1 / 2" | "1 / 2 < r" | "r = 1 / 2" "even f" | "r = 1 / 2" "odd f" by fastforce
  then show ?thesis
  proof cases
    case 1
    then have "round_half_even q = f" by (simp add: round_half_even_def Let_def f_def r_def)
    then show ?thesis using 1 by (simp only: d0) simp
  next
    case 2
    then have "round_half_even q = f + 1" by (simp add: round_half_even_def Let_def f_def r_def)
    then show ?thesis using 2 by (simp only: d1) simp
  next
    case 3
    then have "round_half_even q = f" by (simp add: round_half_even_def Let_def f_def r_def)
    then show ?thesis using 3 by (simp only: d0) simp
  next
    case 4
    then have "round_half_even q = f + 1" by (simp add: round_half_even_def Let_def f_def r_def)
    then show ?thesis using 4 by (simp only: d1) simp
  qed
qed




lemma round_half_even_nonneg: "0 \<le> q \<Longrightarrow> 0 \<le> round_half_even q"
proof -
  assume "0 \<le> q"
  then have "0 \<le> \<lfloor>q\<rfloor>" by simp
  then show ?thesis by (simp add: round_half_even_def Let_def)
qed












lemma rnd_mag_0: "rnd_mag 0 = 0"
  by (simp add: rnd_mag_def round_half_even_def)








subsection \<open>The operations on finite floats\<close>

















subsection \<open>The four values of the conversion\<close>




lemma micro_nearest: "\<bar>of_nat (micro q) - \<bar>q\<bar> * 1000000\<bar> \<le> 1 / 2"
proof -
  have "0 \<le> round_half_even (\<bar>q\<bar> * 1000000)" by (rule round_half_even_nonneg) simp
  then have "(of_nat (micro q) :: rat) = of_int (round_half_even (\<bar>q\<bar> * 1000000))"
    by (simp add: micro_def)
  then show ?thesis using round_half_even_nearest [of "\<bar>q\<bar> * 1000000"] by simp
qed



















lemma fadd_commute: "fadd a b = fadd b a"
  by (cases a; cases b) (simp_all add: add.commute)

lemma fabs_rnd_minus: "fabs (rnd (- q)) = fabs (rnd q)"
  by (cases "q = 0") (auto simp add: rnd_def Let_def signed_inf_def signed_zero_def)

lemma fabs_fsub_swap: "fabs (fsub a b) = fabs (fsub b a)"
proof -
  have m: "\<And>x y :: rat. fabs (rnd (x - y)) = fabs (rnd (y - x))"
    using fabs_rnd_minus by (metis minus_diff_eq)
  have z: "rnd 0 = Fin 0" by (simp add: rnd_def rnd_mag_0 signed_zero_def)
  show ?thesis
    using m fabs_rnd_minus by (cases a; cases b) (simp_all add: fsub_def z)
qed







lemma show_nat_0: "show_nat 0 = ''0''"
  by (simp add: show_eval)










lemma yolo_x_center_swap: "yolo_x_center W [x1, y1, x2, y2] = yolo_x_center W [x2, y2, x1, y1]"
  by (simp add: yolo_x_center_def py_index_def fadd_commute [of x1 x2])

lemma yolo_y_center_swap: "yolo_y_center H [x1, y1, x2, y2] = yolo_y_center H [x2, y2, x1, y1]"
  by (simp add: yolo_y_center_def py_index_def fadd_commute [of y1 y2])

lemma yolo_width_swap: "yolo_width W [x1, y1, x2, y2] = yolo_width W [x2, y2, x1, y1]"
  by (simp add: yolo_width_def py_index_def fabs_fsub_swap [of x2 x1])

lemma yolo_height_swap: "yolo_height H [x1, y1, x2, y2] = yolo_height H [x2, y2, x1, y1]"
  by (simp add: yolo_height_def py_index_def fabs_fsub_swap [of y2 y1])

text \<open>
  Claim C9. \<open>convert_to_yolo_format\<close> gives the same result for a box and for the box
  with its two corners exchanged, for every width, height and coordinates (also where
  it raises: the exception is the same).
\<close>

theorem convert_to_yolo_format_swap_corners:
  "convert_to_yolo_format W H [x1, y1, x2, y2] = convert_to_yolo_format W H [x2, y2, x1, y1]"
  unfolding convert_to_yolo_format_def
  by (simp only: yolo_x_center_swap [of W x1 y1 x2 y2] yolo_y_center_swap [of H x1 y1 x2 y2]
        yolo_width_swap [of W x1 y1 x2 y2] yolo_height_swap [of H x1 y1 x2 y2])




section \<open>Properties of the hand selection\<close>

text \<open>All the points that one call of \<open>get_position\<close> appends: those of every hand.\<close>

definition all_points :: "image \<Rightarrow> hand_landmarks list \<Rightarrow> position list" where
  "all_points copie_img hands = concat (map (\<lambda>hand. map (scale_landmark copie_img) (landmark hand)) hands)"

text \<open>
  A hand matches the filter when one of the two tests of \<open>Detect_hand_type\<close> holds for
  its label.
\<close>

definition matches :: "string \<Rightarrow> hand_info \<Rightarrow> bool" where
  "matches hand_type h =
     (case classification h of [] \<Rightarrow> False | l # _ \<Rightarrow> l = hand_type \<or> hand_type = ''all'')"

lemma foldl_append_each: "foldl (\<lambda>ps lm. ps @ [f lm]) ps lms = ps @ map f lms"
  by (induction lms arbitrary: ps) simp_all

lemma foldl_hands:
  "foldl (\<lambda>ps hand. foldl (\<lambda>ps' lm. ps' @ [scale_landmark img lm]) ps (landmark hand)) ps hands
     = ps @ all_points img hands"
  by (induction hands arbitrary: ps) (simp_all add: all_points_def foldl_append_each)

lemma get_position_Some:
  "multi_hand_landmarks res = Some hands \<Longrightarrow>
   get_position ps res img = Inr (ps @ all_points img hands)"
  by (simp add: get_position_def foldl_hands)

text \<open>
  Claim C7, as amended. When the detection result has at least one hand and no hand
  matches the filter, \<open>Detect_hand_type\<close> raises nothing, leaves the accumulator as it
  was and returns it. (With no hand at all the claim fails: see the counterexample.)
\<close>

theorem Detect_hand_type_no_match:
  assumes "multi_handedness res = Some hs" and "hs \<noteq> []"
    and "\<forall>h \<in> set hs. classification h \<noteq> [] \<and> \<not> matches hand_type h"
  shows "Detect_hand_type hand_type res positions copie_img = Inr (positions, Some positions)"
proof -
  from assms(2) obtain h rest where hs: "hs = h # rest" by (cases hs) auto
  with assms(3) have "classification h \<noteq> []" and nm: "\<not> matches hand_type h" by simp_all
  then obtain l ls where c: "classification h = l # ls" by (cases "classification h") auto
  with nm have "l \<noteq> hand_type" and "hand_type \<noteq> ''all''" by (simp_all add: matches_def)
  with assms(1) hs c show ?thesis
    by (simp add: Detect_hand_type_def py_index_def)
qed

theorem Detect_hand_type_no_match_witness:
  "Detect_hand_type ''Left''
     \<lparr>multi_hand_landmarks = Some [\<lparr>landmark = [\<lparr>lm_x = 1 / 4, lm_y = 1 / 4, lm_z = 0\<rparr>]\<rparr>],
      multi_handedness = Some [\<lparr>classification = [''Right'']\<rparr>]\<rparr>
     [(1, 2, 3)] \<lparr>rows = 480, cols = 640, channels = 3, drawn = []\<rparr>
   = Inr ([(1, 2, 3)], Some [(1, 2, 3)])"
  by (rule Detect_hand_type_no_match [where hs = "[\<lparr>classification = [''Right'']\<rparr>]"])
     (simp_all add: matches_def)

text \<open>
  Claim C7 as stated fails for a result with zero hands: over an empty handedness list
  the loop body with its \<open>return\<close> never runs and the function returns \<open>None\<close>, not
  the accumulator; over an absent list (\<open>None\<close>) the iteration raises \<open>TypeError\<close>.
\<close>

theorem Detect_hand_type_zero_hands_counterexample:
  "Detect_hand_type ''Left'' \<lparr>multi_hand_landmarks = Some [], multi_handedness = Some []\<rparr>
     [(1, 2, 3)] \<lparr>rows = 480, cols = 640, channels = 3, drawn = []\<rparr>
     = Inr ([(1, 2, 3)], None)
   \<and> Detect_hand_type ''Left'' \<lparr>multi_hand_landmarks = None, multi_handedness = None\<rparr>
     [(1, 2, 3)] \<lparr>rows = 480, cols = 640, channels = 3, drawn = []\<rparr>
     = Inl TypeError"
  by (simp add: Detect_hand_type_def)

text \<open>
  Claim C8, as amended. \<open>Detect_hand_type\<close> returns after the first entry of the
  handedness list: the entries after the first do not change the result. When the label
  of the first entry equals the filter, or the filter is \<open>all\<close>, \<open>get_position\<close>
  appends the points of every detected hand (once for each of the two tests that
  holds), not only those of the first hand.
\<close>

theorem Detect_hand_type_first_entry:
  assumes "multi_handedness res = Some (h # hs)" and "classification h = l # ls"
    and "multi_hand_landmarks res = Some hands"
  shows "Detect_hand_type hand_type res positions copie_img =
           Detect_hand_type hand_type (res\<lparr>multi_handedness := Some [h]\<rparr>) positions copie_img
         \<and> Detect_hand_type hand_type res positions copie_img =
           (let appended = concat (replicate ((if l = hand_type then 1 else 0)
                                              + (if hand_type = ''all'' then 1 else 0))
                                     (all_points copie_img hands))
            in Inr (positions @ appended, Some (positions @ appended)))"
  using assms
  by (simp add: Detect_hand_type_def py_index_def get_position_Some Let_def)

theorem Detect_hand_type_first_entry_witness:
  "Detect_hand_type ''Left''
     \<lparr>multi_hand_landmarks = Some [\<lparr>landmark = [\<lparr>lm_x = 1 / 4, lm_y = 1 / 4, lm_z = 0\<rparr>]\<rparr>,
                                   \<lparr>landmark = [\<lparr>lm_x = 3 / 4, lm_y = 1 / 8, lm_z = 0\<rparr>]\<rparr>],
      multi_handedness = Some [\<lparr>classification = [''Left'']\<rparr>, \<lparr>classification = [''Right'']\<rparr>]\<rparr>
     [] \<lparr>rows = 480, cols = 640, channels = 3, drawn = []\<rparr>
   = Inr ([(160, 120, 0), (480, 60, 0)], Some [(160, 120, 0), (480, 60, 0)])"
  using Detect_hand_type_first_entry [of
     "\<lparr>multi_hand_landmarks = Some [\<lparr>landmark = [\<lparr>lm_x = 1 / 4, lm_y = 1 / 4, lm_z = 0\<rparr>]\<rparr>,
                                   \<lparr>landmark = [\<lparr>lm_x = 3 / 4, lm_y = 1 / 8, lm_z = 0\<rparr>]\<rparr>],
      multi_handedness = Some [\<lparr>classification = [''Left'']\<rparr>, \<lparr>classification = [''Right'']\<rparr>]\<rparr>"
     "\<lparr>classification = [''Left'']\<rparr>" "[\<lparr>classification = [''Right'']\<rparr>]" "''Left''" "[]"
     "[\<lparr>landmark = [\<lparr>lm_x = 1 / 4, lm_y = 1 / 4, lm_z = 0\<rparr>]\<rparr>,
       \<lparr>landmark = [\<lparr>lm_x = 3 / 4, lm_y = 1 / 8, lm_z = 0\<rparr>]\<rparr>]"
     "''Left''" "[]" "\<lparr>rows = 480, cols = 640, channels = 3, drawn = []\<rparr>",
     THEN conjunct2]
  by (simp add: all_points_def scale_landmark_def Let_def)

text \<open>
  Claim C8 as stated fails: with two hands and the filter \<open>all\<close>, the point of the
  second hand, \<open>(480, 60, 0)\<close>, is appended as well as that of the first.
\<close>

theorem Detect_hand_type_all_hands_counterexample:
  "Detect_hand_type ''all''
     \<lparr>multi_hand_landmarks = Some [\<lparr>landmark = [\<lparr>lm_x = 1 / 4, lm_y = 1 / 4, lm_z = 0\<rparr>]\<rparr>,
                                   \<lparr>landmark = [\<lparr>lm_x = 3 / 4, lm_y = 1 / 8, lm_z = 0\<rparr>]\<rparr>],
      multi_handedness = Some [\<lparr>classification = [''Left'']\<rparr>, \<lparr>classification = [''Right'']\<rparr>]\<rparr>
     [] \<lparr>rows = 480, cols = 640, channels = 3, drawn = []\<rparr>
   = Inr ([(160, 120, 0), (480, 60, 0)], Some [(160, 120, 0), (480, 60, 0)])"
  by (simp add: Detect_hand_type_def py_index_def get_position_def scale_landmark_def)

section \<open>Properties of the bounding box, the drawing and the crop\<close>

lemma Min_insert_min:
  "finite S \<Longrightarrow> Min (insert (min a b) S) = Min (insert (a :: 'a :: linorder) (insert b S))"
proof (cases "S = {}")
  case True
  then show ?thesis by simp
next
  case False
  assume "finite S"
  with False show ?thesis by (simp add: min.assoc)
qed

lemma Max_insert_max:
  "finite S \<Longrightarrow> Max (insert (max a b) S) = Max (insert (a :: 'a :: linorder) (insert b S))"
proof (cases "S = {}")
  case True
  then show ?thesis by simp
next
  case False
  assume "finite S"
  with False show ?thesis by (simp add: max.assoc)
qed

lemma foldl_min_key:
  "key (foldl (\<lambda>best y. if key y < key best then y else best) x xs)
     = Min (insert (key x :: rat) (key ` set xs))"
proof (induction xs arbitrary: x)
  case Nil
  show ?case by simp
next
  case (Cons y ys)
  have k: "key (if key y < key x then y else x) = min (key x) (key y)"
    by (simp add: min_def)
  have "key (foldl (\<lambda>best y. if key y < key best then y else best) x (y # ys))
          = Min (insert (min (key x) (key y)) (key ` set ys))"
    using Cons.IH [of "if key y < key x then y else x"] by (simp only: foldl_Cons k)
  also have "\<dots> = Min (insert (key x) (insert (key y) (key ` set ys)))"
    by (rule Min_insert_min) simp
  finally show ?case by simp
qed

lemma foldl_max_key:
  "key (foldl (\<lambda>best y. if key best < key y then y else best) x xs)
     = Max (insert (key x :: rat) (key ` set xs))"
proof (induction xs arbitrary: x)
  case Nil
  show ?case by simp
next
  case (Cons y ys)
  have k: "key (if key x < key y then y else x) = max (key x) (key y)"
    by (simp add: max_def)
  have "key (foldl (\<lambda>best y. if key best < key y then y else best) x (y # ys))
          = Max (insert (max (key x) (key y)) (key ` set ys))"
    using Cons.IH [of "if key x < key y then y else x"] by (simp only: foldl_Cons k)
  also have "\<dots> = Max (insert (key x) (insert (key y) (key ` set ys)))"
    by (rule Max_insert_max) simp
  finally show ?case by simp
qed

lemma py_min_key_Min:
  "xs \<noteq> [] \<Longrightarrow> \<exists>m. py_min_key key xs = Inr m \<and> key m = Min (key ` set xs)"
  by (cases xs) (simp_all add: foldl_min_key)

lemma py_max_key_Max:
  "xs \<noteq> [] \<Longrightarrow> \<exists>m. py_max_key key xs = Inr m \<and> key m = Max (key ` set xs)"
  by (cases xs) (simp_all add: foldl_max_key)

lemma bound_box_envelope:
  assumes "positions \<noteq> []"
  shows "bound_box positions =
           Inr (py_int (Min (pos_x ` set positions)), py_int (Min (pos_y ` set positions)),
                py_int (Max (pos_x ` set positions)), py_int (Max (pos_y ` set positions)))"
proof -
  obtain a where a: "py_min_key pos_x positions = Inr a" "pos_x a = Min (pos_x ` set positions)"
    using py_min_key_Min [OF assms] by blast
  obtain b where b: "py_min_key pos_y positions = Inr b" "pos_y b = Min (pos_y ` set positions)"
    using py_min_key_Min [OF assms] by blast
  obtain c where c: "py_max_key pos_x positions = Inr c" "pos_x c = Max (pos_x ` set positions)"
    using py_max_key_Max [OF assms] by blast
  obtain d where d: "py_max_key pos_y positions = Inr d" "pos_y d = Max (pos_y ` set positions)"
    using py_max_key_Max [OF assms] by blast
  show ?thesis by (simp add: bound_box_def a b c d)
qed

text \<open>
  Claim C6. For a non-empty position list, with \<open>x_min, y_min, x_max, y_max\<close> the
  truncated extremes of the positions, \<open>Draw_Bound_Boxes\<close> raises nothing; it draws the
  rectangle from \<open>(x_min - offset - 40, y_min - offset - 15)\<close> to
  \<open>(x_max - offset + 50, y_max - offset + 40)\<close> and the caption exactly when that
  rectangle lies within the frame (\<open>0 \<le>\<close> its left and top, its right \<open>\<le>\<close> the
  columns, its bottom \<open>\<le>\<close> the rows), and otherwise returns the frame as it was. In
  particular nothing is drawn when \<open>y_min - offset - 15 = -1\<close>.
\<close>

theorem Draw_Bound_Boxes_guard:
  assumes "positions \<noteq> []"
    and "x_min = py_int (Min (pos_x ` set positions))"
    and "y_min = py_int (Min (pos_y ` set positions))"
    and "x_max = py_int (Max (pos_x ` set positions))"
    and "y_max = py_int (Max (pos_y ` set positions))"
  shows "Draw_Bound_Boxes self positions frame cls =
           (if 0 \<le> x_min - offset self - 40 \<and> 0 \<le> y_min - offset self - 15
               \<and> x_max - offset self + 50 \<le> cols frame
               \<and> y_max - offset self + 40 \<le> rows frame
            then Inr (frame\<lparr>drawn := drawn frame @
                   [Rectangle (x_min - offset self - 40, y_min - offset self - 15)
                              (x_max - offset self + 50, y_max - offset self + 40) (0, 255, 0) 3,
                    PutText cls (x_min - offset self - 40, y_min - offset self - 20)
                            (3 / 5) (225, 255, 255) 1]\<rparr>)
            else Inr frame)
         \<and> (y_min - offset self - 15 = - 1 \<longrightarrow>
              Draw_Bound_Boxes self positions frame cls = Inr frame)"
  using assms(2-5)
  by (auto simp add: Draw_Bound_Boxes_def bound_box_envelope [OF assms(1)] Let_def)

theorem Draw_Bound_Boxes_guard_witness:
  "Draw_Bound_Boxes (Utils_init None None None None) [(100, 24, 0), (201, 150, 0)]
     \<lparr>rows = 480, cols = 640, channels = 3, drawn = []\<rparr> ''A''
     = Inr \<lparr>rows = 480, cols = 640, channels = 3, drawn = []\<rparr>
   \<and> Draw_Bound_Boxes (Utils_init None None None None) [(100, 110, 0), (201, 150, 0)]
     \<lparr>rows = 480, cols = 640, channels = 3, drawn = []\<rparr> ''A''
     = Inr \<lparr>rows = 480, cols = 640, channels = 3,
            drawn = [Rectangle (50, 85) (241, 180) (0, 255, 0) 3,
                     PutText ''A'' (50, 80) (3 / 5) (225, 255, 255) 1]\<rparr>"
proof -
  have a: "[(100, 24, 0), (201, 150, 0)] \<noteq> ([] :: position list)" by simp
  have b: "[(100, 110, 0), (201, 150, 0)] \<noteq> ([] :: position list)" by simp
  show ?thesis
    using Draw_Bound_Boxes_guard [OF a refl refl refl refl,
            of "Utils_init None None None None"
               "\<lparr>rows = 480, cols = 640, channels = 3, drawn = []\<rparr>" "''A''"]
          Draw_Bound_Boxes_guard [OF b refl refl refl refl,
            of "Utils_init None None None None"
               "\<lparr>rows = 480, cols = 640, channels = 3, drawn = []\<rparr>" "''A''"]
    by (simp add: pos_x_def pos_y_def py_int_def Utils_init_def)
qed

section \<open>Properties of the annotation writer\<close>

text \<open>
  Claim C3, as amended. With zero hands \<open>anotation_data\<close> has no guard of its own: it
  fails with the \<open>TypeError\<close> of iterating \<open>None\<close> when the hand list is absent, and
  with \<open>UnboundLocalError\<close> (\<open>ancho\<close> was never assigned) when the list is empty. In
  both cases the annotation file has been opened, and nothing is written to it.
\<close>

theorem anotation_data_zero_hands:
  "(multi_hand_landmarks res = None \<longrightarrow>
      anotation_data res img annotation_file class_index fs
        = (Inl TypeError, open_append annotation_file fs))
   \<and> (multi_hand_landmarks res = Some [] \<longrightarrow>
      anotation_data res img annotation_file class_index fs
        = (Inl UnboundLocalError, open_append annotation_file fs))"
  by (simp add: anotation_data_def anot_init_def Let_def)

theorem anotation_data_zero_hands_witness:
  "anotation_data \<lparr>multi_hand_landmarks = None, multi_handedness = None\<rparr>
     \<lparr>rows = 480, cols = 640, channels = 3, drawn = []\<rparr> ''a.txt'' 3 [(''a.txt'', ''x'')]
     = (Inl TypeError, [(''a.txt'', ''x'')])
   \<and> anotation_data \<lparr>multi_hand_landmarks = Some [], multi_handedness = Some []\<rparr>
     \<lparr>rows = 480, cols = 640, channels = 3, drawn = []\<rparr> ''a.txt'' 3 [(''a.txt'', ''x'')]
     = (Inl UnboundLocalError, [(''a.txt'', ''x'')])"
  using anotation_data_zero_hands [of "\<lparr>multi_hand_landmarks = None, multi_handedness = None\<rparr>"
          "\<lparr>rows = 480, cols = 640, channels = 3, drawn = []\<rparr>" "''a.txt''" 3 "[(''a.txt'', ''x'')]"]
        anotation_data_zero_hands [of "\<lparr>multi_hand_landmarks = Some [], multi_handedness = Some []\<rparr>"
          "\<lparr>rows = 480, cols = 640, channels = 3, drawn = []\<rparr>" "''a.txt''" 3 "[(''a.txt'', ''x'')]"]
  by (simp add: open_append_def)

text \<open>
  Claim C3 as stated fails: the error for zero hands is not a guarded rejection but the
  \<open>TypeError\<close> raised by the \<open>for\<close> statement on the absent list (and
  \<open>UnboundLocalError\<close> on an empty one); the module has no \<open>InvalidInput\<close> error.
\<close>

theorem anotation_data_zero_hands_counterexample:
  "fst (anotation_data \<lparr>multi_hand_landmarks = None, multi_handedness = None\<rparr>
     \<lparr>rows = 480, cols = 640, channels = 3, drawn = []\<rparr> ''a.txt'' 3 []) = Inl TypeError
   \<and> fst (anotation_data \<lparr>multi_hand_landmarks = Some [], multi_handedness = Some []\<rparr>
     \<lparr>rows = 480, cols = 640, channels = 3, drawn = []\<rparr> ''a.txt'' 3 []) = Inl UnboundLocalError"
  by (simp add: anotation_data_def anot_init_def Let_def)

section \<open>Properties of the save routine\<close>

lemma find_free_not_exists:
  "\<not> path_exists fs (find_free fs d a s h c index)"
proof (induction fs d a s h c index rule: find_free.induct)
  case (1 fs d a s h c index)
  then show ?case by (subst find_free.simps) (simp add: Let_def)
qed

lemma find_free_index:
  "\<exists>n \<ge> index. find_free fs d a s h c index = new_image_path_of d a s h c n
      \<and> \<not> path_exists fs (new_image_path_of d a s h c n)
      \<and> (\<forall>j. index \<le> j \<and> j < n \<longrightarrow> path_exists fs (new_image_path_of d a s h c j))"
proof (induction fs d a s h c index rule: find_free.induct)
  case (1 fs d a s h c index)
  show ?case
  proof (cases "path_exists fs (new_image_path_of d a s h c index)")
    case False
    then have "find_free fs d a s h c index = new_image_path_of d a s h c index"
      by (subst find_free.simps) (simp add: Let_def)
    with False show ?thesis by (intro exI [of _ index]) auto
  next
    case True
    then have e: "find_free fs d a s h c index = find_free fs d a s h c (index + 1)"
      by (subst find_free.simps) (simp add: Let_def)
    from True obtain n where n: "index + 1 \<le> n"
      "find_free fs d a s h c (index + 1) = new_image_path_of d a s h c n"
      "\<not> path_exists fs (new_image_path_of d a s h c n)"
      "\<forall>j. index + 1 \<le> j \<and> j < n \<longrightarrow> path_exists fs (new_image_path_of d a s h c j)"
      using "1.IH" [OF refl] by auto
    have "\<forall>j. index \<le> j \<and> j < n \<longrightarrow> path_exists fs (new_image_path_of d a s h c j)"
    proof (intro allI impI)
      fix j assume j: "index \<le> j \<and> j < n"
      show "path_exists fs (new_image_path_of d a s h c j)"
      proof (cases "j = index")
        case True
        with \<open>path_exists fs (new_image_path_of d a s h c index)\<close> show ?thesis by simp
      next
        case False
        with j have "index + 1 \<le> j \<and> j < n" by simp
        with n(4) show ?thesis by blast
      qed
    qed
    with n e show ?thesis by (intro exI [of _ n]) simp
  qed
qed

text \<open>
  Claim C10. The probe loop of \<open>Save_resized_hand\<close> halts for every table of existing
  files: started at index 1, it returns the candidate path of some index \<open>n \<ge> 1\<close>
  that does not exist, every candidate of a smaller index existing. (\<open>find_free\<close> is a
  total function: its termination is proved where it is defined, from the finiteness of
  the table and the injectivity of the candidate paths.)
\<close>

theorem find_free_terminates:
  "\<exists>n \<ge> 1. find_free fs data_path action sequence hand_type count 1
             = new_image_path_of data_path action sequence hand_type count n
      \<and> \<not> path_exists fs (new_image_path_of data_path action sequence hand_type count n)
      \<and> new_image_path_of data_path action sequence hand_type count n \<notin> fst ` set fs
      \<and> (\<forall>j. 1 \<le> j \<and> j < n \<longrightarrow>
            path_exists fs (new_image_path_of data_path action sequence hand_type count j))"
proof -
  obtain n where n: "1 \<le> n"
      "find_free fs data_path action sequence hand_type count 1
         = new_image_path_of data_path action sequence hand_type count n"
      "\<not> path_exists fs (new_image_path_of data_path action sequence hand_type count n)"
      "\<forall>j. 1 \<le> j \<and> j < n \<longrightarrow>
            path_exists fs (new_image_path_of data_path action sequence hand_type count j)"
    using find_free_index [of 1 fs data_path action sequence hand_type count] by blast
  from n(3) have "new_image_path_of data_path action sequence hand_type count n \<notin> fst ` set fs"
    by (simp add: path_exists_def map_of_eq_None_iff)
  with n show ?thesis by blast
qed

theorem find_free_terminates_witness:
  "find_free [(''data/A/sequence 0 capture Left 3.png'', ()),
              (''data/A/sequence 0 capture Left 3_1.png'', ())]
     ''data'' ''A'' 0 ''Left'' 3 1 = ''data/A/sequence 0 capture Left 3_2.png''"
proof -
  let ?fs = "[(''data/A/sequence 0 capture Left 3.png'', ()),
              (''data/A/sequence 0 capture Left 3_1.png'', ())]"
  have p: "\<And>k. new_image_path_of ''data'' ''A'' 0 ''Left'' 3 k
             = ''data/A/sequence 0 capture Left 3_'' @ show_nat k @ ''.png''"
    by (simp add: new_image_path_of_def new_image_name_def py_join_def show_eval)
  obtain n where n: "1 \<le> n"
     "find_free ?fs ''data'' ''A'' 0 ''Left'' 3 1 = new_image_path_of ''data'' ''A'' 0 ''Left'' 3 n"
     "\<not> path_exists ?fs (new_image_path_of ''data'' ''A'' 0 ''Left'' 3 n)"
     "\<forall>j. 1 \<le> j \<and> j < n \<longrightarrow> path_exists ?fs (new_image_path_of ''data'' ''A'' 0 ''Left'' 3 j)"
    using find_free_terminates [of ?fs "''data''" "''A''" 0 "''Left''" 3] by blast
  have one: "path_exists ?fs (new_image_path_of ''data'' ''A'' 0 ''Left'' 3 1)"
    by (simp add: p path_exists_def show_eval)
  have two: "\<not> path_exists ?fs (new_image_path_of ''data'' ''A'' 0 ''Left'' 3 2)"
    by (simp add: p path_exists_def show_eval)
  from n(3) one have "n \<noteq> 1" by auto
  moreover from n(4) two have "\<not> 2 < n" by auto
  ultimately have "n = 2" using n(1) by simp
  with n(2) show ?thesis by (simp add: p show_eval)
qed

lemma chosen_path_not_exists:
  "\<not> path_exists fs (chosen_path fs d a s h c)"
  by (simp add: chosen_path_def Let_def find_free_not_exists)

lemma save_one_map_of:
  "map_of (save_one d a img c h fs s) = (map_of fs)(chosen_path fs d a s h c \<mapsto> img)"
  by (simp add: save_one_def write_file_def update_conv')

lemma save_one_preserves:
  "map_of fs p = Some v \<Longrightarrow> map_of (save_one d a img c h fs s) p = Some v"
proof -
  assume a: "map_of fs p = Some v"
  have "map_of fs (chosen_path fs d a s h c) = None"
    using chosen_path_not_exists [of fs d a s h c] by (simp add: path_exists_def)
  with a have "p \<noteq> chosen_path fs d a s h c" by auto
  with a show ?thesis by (simp add: save_one_map_of)
qed

lemma sequence_loop_preserves:
  "map_of fs p = Some v \<Longrightarrow> map_of (snd (sequence_loop dp a img c h seqs fs)) p = Some v"
proof (induction seqs arbitrary: fs)
  case Nil
  then show ?case by simp
next
  case (Cons s seqs)
  show ?case
  proof (cases dp)
    case None
    with Cons.prems show ?thesis by simp
  next
    case (Some d)
    have "map_of (save_one d a img c h fs s) p = Some v" using Cons.prems by (rule save_one_preserves)
    then have "map_of (snd (sequence_loop dp a img c h seqs (save_one d a img c h fs s))) p = Some v"
      by (rule Cons.IH)
    with Some show ?thesis by simp
  qed
qed

lemma actions_loop_preserves:
  "map_of fs p = Some v \<Longrightarrow> map_of (snd (actions_loop dp freq img c h acts fs)) p = Some v"
proof (induction acts arbitrary: fs)
  case Nil
  then show ?case by simp
next
  case (Cons a acts)
  obtain e fs' where r: "sequence_loop dp a img c h [0..<nat freq] fs = (e, fs')"
    by (cases "sequence_loop dp a img c h [0..<nat freq] fs")
  have p: "map_of fs' p = Some v"
    using sequence_loop_preserves [OF Cons.prems, of dp a img c h "[0..<nat freq]"] r by simp
  show ?case
  proof (cases e)
    case None
    with r p Cons.IH [of fs'] show ?thesis by simp
  next
    case (Some err)
    with r p show ?thesis by simp
  qed
qed

lemma Save_resized_hand_preserves:
  "map_of fs p = Some v \<Longrightarrow> map_of (snd (Save_resized_hand self img c h fs)) p = Some v"
proof -
  assume a: "map_of fs p = Some v"
  show ?thesis
  proof (cases "actions self")
    case None
    with a show ?thesis by (simp add: Save_resized_hand_def)
  next
    case (Some acts)
    obtain e fs' where r: "actions_loop (DATA_PATH self) (save_frequency self) img c h acts fs = (e, fs')"
      by (cases "actions_loop (DATA_PATH self) (save_frequency self) img c h acts fs")
    have p: "map_of fs' p = Some v"
      using actions_loop_preserves [OF a, of "DATA_PATH self" "save_frequency self" img c h acts] r
      by simp
    show ?thesis
      using Some r p
      by (simp add: Save_resized_hand_def split: option.split sum.split)
  qed
qed

lemma find_free_first:
  "\<not> path_exists fs (new_image_path_of d a s h c index) \<Longrightarrow>
   find_free fs d a s h c index = new_image_path_of d a s h c index"
  by (subst find_free.simps) (simp add: Let_def)

lemma find_free_next:
  "path_exists fs (new_image_path_of d a s h c index) \<Longrightarrow>
   find_free fs d a s h c index = find_free fs d a s h c (index + 1)"
  by (subst find_free.simps) (simp add: Let_def)

text \<open>
  Claim C5. In every iteration of \<open>Save_resized_hand\<close> the path written is one that
  does not exist: the canonical path when it is free; else the first free candidate
  \<open>_1\<close>, \<open>_2\<close>, \<open>\<dots>\<close> (every candidate of a smaller index existing), which is the
  one with suffix \<open>_1\<close> when that is free, and the one with suffix \<open>_2\<close> when \<open>_1\<close> is
  taken and \<open>_2\<close> is free. The write adds the image at that path and changes nothing
  else, and a whole call of \<open>Save_resized_hand\<close>, however it ends, leaves every file
  that existed before at its path with its content.
\<close>

theorem Save_resized_hand_collision_safe:
  "\<not> path_exists fs (chosen_path fs d a s h c)
   \<and> (\<not> path_exists fs (image_path_of d a s h c) \<longrightarrow>
        chosen_path fs d a s h c = image_path_of d a s h c)
   \<and> (path_exists fs (image_path_of d a s h c) \<longrightarrow>
        (\<exists>n \<ge> 1. chosen_path fs d a s h c = new_image_path_of d a s h c n
           \<and> (\<forall>j. 1 \<le> j \<and> j < n \<longrightarrow> path_exists fs (new_image_path_of d a s h c j))))
   \<and> (path_exists fs (image_path_of d a s h c)
        \<and> \<not> path_exists fs (new_image_path_of d a s h c 1) \<longrightarrow>
        chosen_path fs d a s h c =
          py_join (py_join d a)
            (''sequence '' @ show_nat s @ '' capture '' @ h @ '' '' @ show_int c @ ''_1.png''))
   \<and> (path_exists fs (image_path_of d a s h c)
        \<and> path_exists fs (new_image_path_of d a s h c 1)
        \<and> \<not> path_exists fs (new_image_path_of d a s h c 2) \<longrightarrow>
        chosen_path fs d a s h c =
          py_join (py_join d a)
            (''sequence '' @ show_nat s @ '' capture '' @ h @ '' '' @ show_int c @ ''_2.png''))
   \<and> map_of (save_one d a img c h fs s) = (map_of fs)(chosen_path fs d a s h c \<mapsto> img)
   \<and> (\<forall>p v. map_of fs p = Some v \<longrightarrow>
         map_of (snd (Save_resized_hand self img c h fs)) p = Some v)"
proof (intro conjI impI allI)
  show "\<not> path_exists fs (chosen_path fs d a s h c)" by (rule chosen_path_not_exists)
next
  assume "\<not> path_exists fs (image_path_of d a s h c)"
  then show "chosen_path fs d a s h c = image_path_of d a s h c"
    by (simp add: chosen_path_def)
next
  assume e: "path_exists fs (image_path_of d a s h c)"
  obtain n where n: "1 \<le> n" "find_free fs d a s h c 1 = new_image_path_of d a s h c n"
    "\<forall>j. 1 \<le> j \<and> j < n \<longrightarrow> path_exists fs (new_image_path_of d a s h c j)"
    using find_free_index [of 1 fs d a s h c] by blast
  with e show "\<exists>n \<ge> 1. chosen_path fs d a s h c = new_image_path_of d a s h c n
           \<and> (\<forall>j. 1 \<le> j \<and> j < n \<longrightarrow> path_exists fs (new_image_path_of d a s h c j))"
    by (auto simp add: chosen_path_def)
next
  assume "path_exists fs (image_path_of d a s h c)
        \<and> \<not> path_exists fs (new_image_path_of d a s h c 1)"
  then show "chosen_path fs d a s h c =
          py_join (py_join d a)
            (''sequence '' @ show_nat s @ '' capture '' @ h @ '' '' @ show_int c @ ''_1.png'')"
    by (simp add: chosen_path_def find_free_first new_image_path_of_def new_image_name_def
          show_nat_small digit_char_simps)
next
  assume a: "path_exists fs (image_path_of d a s h c)
        \<and> path_exists fs (new_image_path_of d a s h c 1)
        \<and> \<not> path_exists fs (new_image_path_of d a s h c 2)"
  have "(1::nat) + 1 = 2" by simp
  with a have "find_free fs d a s h c 1 = find_free fs d a s h c 2"
    using find_free_next [of fs d a s h c 1] by (simp only:)
  also have "\<dots> = new_image_path_of d a s h c 2" using a by (simp add: find_free_first)
  finally show "chosen_path fs d a s h c =
          py_join (py_join d a)
            (''sequence '' @ show_nat s @ '' capture '' @ h @ '' '' @ show_int c @ ''_2.png'')"
    using a by (simp add: chosen_path_def new_image_path_of_def new_image_name_def
          show_nat_small digit_char_simps)
next
  show "map_of (save_one d a img c h fs s) = (map_of fs)(chosen_path fs d a s h c \<mapsto> img)"
    by (rule save_one_map_of)
next
  fix p v assume "map_of fs p = Some v"
  then show "map_of (snd (Save_resized_hand self img c h fs)) p = Some v"
    by (rule Save_resized_hand_preserves)
qed


theorem Save_resized_hand_collision_safe_witness:
  "chosen_path ([] :: nat files) ''data'' ''A'' 0 ''Left'' 3 = ''data/A/sequence 0 capture Left 3.png''
   \<and> chosen_path [(''data/A/sequence 0 capture Left 3.png'', 0 :: nat)] ''data'' ''A'' 0 ''Left'' 3
       = ''data/A/sequence 0 capture Left 3_1.png''
   \<and> chosen_path [(''data/A/sequence 0 capture Left 3.png'', 0 :: nat),
                   (''data/A/sequence 0 capture Left 3_1.png'', 0)] ''data'' ''A'' 0 ''Left'' 3
       = ''data/A/sequence 0 capture Left 3_2.png''
   \<and> Save_resized_hand
        ((Utils_init (Some ''data'') (Some [''A'']) (Some 224) (Some 100))\<lparr>save_frequency := 1\<rparr>)
        (1 :: nat) 3 ''Left''
        [(''data/A/sequence 0 capture Left 3.png'', 0),
         (''data/A/sequence 0 capture Left 3_1.png'', 0)]
       = (Inr Returned,
          [(''data/A/sequence 0 capture Left 3.png'', 0),
           (''data/A/sequence 0 capture Left 3_1.png'', 0),
           (''data/A/sequence 0 capture Left 3_2.png'', 1)])"
proof -
  let ?fs1 = "[(''data/A/sequence 0 capture Left 3.png'', 0 :: nat)]"
  let ?fs2 = "[(''data/A/sequence 0 capture Left 3.png'', 0 :: nat),
               (''data/A/sequence 0 capture Left 3_1.png'', 0)]"
  have p: "\<And>k. new_image_path_of ''data'' ''A'' 0 ''Left'' 3 k
             = ''data/A/sequence 0 capture Left 3_'' @ show_nat k @ ''.png''"
    by (simp add: new_image_path_of_def new_image_name_def py_join_def show_eval)
  have q: "image_path_of ''data'' ''A'' 0 ''Left'' 3 = ''data/A/sequence 0 capture Left 3.png''"
    by (simp add: image_path_of_def image_name_def py_join_def show_eval)
  have c0: "chosen_path ([] :: nat files) ''data'' ''A'' 0 ''Left'' 3
              = ''data/A/sequence 0 capture Left 3.png''"
    using Save_resized_hand_collision_safe [where fs = "[] :: nat files" and d = "''data''"
      and a = "''A''" and s = 0 and h = "''Left''" and c = 3]
    by (simp add: p q path_exists_def)
  have c1: "chosen_path ?fs1 ''data'' ''A'' 0 ''Left'' 3 = ''data/A/sequence 0 capture Left 3_1.png''"
    using Save_resized_hand_collision_safe [where fs = ?fs1 and d = "''data''"
      and a = "''A''" and s = 0 and h = "''Left''" and c = 3]
    by (simp add: p q path_exists_def py_join_def show_eval)
  have c2: "chosen_path ?fs2 ''data'' ''A'' 0 ''Left'' 3 = ''data/A/sequence 0 capture Left 3_2.png''"
    using Save_resized_hand_collision_safe [where fs = ?fs2 and d = "''data''"
      and a = "''A''" and s = 0 and h = "''Left''" and c = 3]
    by (simp add: p q path_exists_def py_join_def show_eval)
  have lim: "int_true_div 100 1 = Inr (Fin 100)"
    by (simp add: int_true_div_def rnd_eval)
  have s: "Save_resized_hand
        ((Utils_init (Some ''data'') (Some [''A'']) (Some 224) (Some 100))\<lparr>save_frequency := 1\<rparr>)
        (1 :: nat) 3 ''Left'' ?fs2
       = (Inr Returned, ?fs2 @ [(''data/A/sequence 0 capture Left 3_2.png'', 1)])"
    by (simp add: Save_resized_hand_def Utils_init_def save_one_def write_file_def c2 lim
          int_ge_float_def)
  from c0 c1 c2 s show ?thesis by simp
qed

end
